theory Spec2Isabelle
  imports Complex_Main
begin

section \<open>Retirement planner: tax estimator and year projector\<close>

text \<open>
  A shallow embedding of \<^verbatim>\<open>retirement_planner/taxes.py\<close> and
  \<^verbatim>\<open>retirement_planner/calculations.py\<close>.

  Conventions of the embedding:
  \<^item> a Python \<^verbatim>\<open>float\<close> is a \<^typ>\<open>real\<close>: arithmetic is exact, rounding is not modelled.
    The one exception is \<open>year_locals_f64\<close>, which repeats the balance arithmetic of
    a year with every operation rounded to binary64;
  \<^item> a Python \<^verbatim>\<open>int\<close> is an \<^typ>\<open>int\<close>, a \<^verbatim>\<open>str\<close> a \<^typ>\<open>string\<close>;
  \<^item> a dataclass is a record, and the row dictionary built by the projector is the
    record \<open>YearRecord\<close>, one field per key;
  \<^item> an exception is the \<open>Inl\<close> side of a sum;
  \<^item> a leading underscore of a Python name is dropped.
\<close>

datatype py_error = TypeError | KeyError

subsection \<open>taxes.py\<close>

type_synonym OrdinaryBracket = "real \<times> real"

definition FEDERAL_BRACKETS_SINGLE :: "OrdinaryBracket list" where
  "FEDERAL_BRACKETS_SINGLE =
     [(0, 0.10), (11600, 0.12), (47150, 0.22), (100525, 0.24),
      (191950, 0.32), (243725, 0.35), (609350, 0.37)]"

definition FEDERAL_BRACKETS_MARRIED :: "OrdinaryBracket list" where
  "FEDERAL_BRACKETS_MARRIED =
     [(0, 0.10), (23200, 0.12), (94300, 0.22), (201050, 0.24),
      (383900, 0.32), (487450, 0.35), (731200, 0.37)]"

definition STANDARD_DEDUCTION :: "(string \<times> real) list" where
  "STANDARD_DEDUCTION = [(''single'', 14600), (''married'', 29200)]"

text \<open>\<^verbatim>\<open>d[k]\<close> raises KeyError on a missing key; \<^verbatim>\<open>d.get(k, default)\<close> does not.\<close>

definition dict_index :: "('k \<times> 'v) list \<Rightarrow> 'k \<Rightarrow> py_error + 'v" where
  "dict_index d k = (case map_of d k of None \<Rightarrow> Inl KeyError | Some v \<Rightarrow> Inr v)"

definition dict_get :: "('k \<times> 'v) list \<Rightarrow> 'k \<Rightarrow> 'v \<Rightarrow> 'v" where
  "dict_get d k dflt = (case map_of d k of None \<Rightarrow> dflt | Some v \<Rightarrow> v)"

record TaxInput =
  filing_status :: string
  state_rate :: real
  ordinary_income :: real
  capital_gains_income :: real

record TaxResult =
  total_tax :: real
  effective_rate :: real
  federal_tax :: real
  state_tax :: real
  ordinary_income_taxed :: real
  capital_gains_taxed :: real

text \<open>
  The constructor a dataclass generates takes one keyword per declared field. A call
  is modelled by its keyword arguments, in the order written at the call site. A
  keyword that is no field of the class, or a field without an argument, raises
  TypeError. (The dataclass does not check the types of the values; the last case
  below is never reached from this program, whose only call passes a string and
  floats.)
\<close>

datatype pyval = PyStr string | PyFloat real

definition TaxInput_fields :: "string list" where
  "TaxInput_fields =
     [''filing_status'', ''state_rate'', ''ordinary_income'', ''capital_gains_income'']"

definition TaxInput_init :: "(string \<times> pyval) list \<Rightarrow> py_error + TaxInput" where
  "TaxInput_init kwargs =
     (if \<not> list_all (\<lambda>(k, v). k \<in> set TaxInput_fields) kwargs then Inl TypeError
      else
        case (map_of kwargs ''filing_status'', map_of kwargs ''state_rate'',
              map_of kwargs ''ordinary_income'', map_of kwargs ''capital_gains_income'') of
          (Some (PyStr fs), Some (PyFloat sr), Some (PyFloat oi), Some (PyFloat cg)) \<Rightarrow>
            Inr \<lparr>filing_status = fs, state_rate = sr, ordinary_income = oi,
                 capital_gains_income = cg\<rparr>
        | _ \<Rightarrow> Inl TypeError)"

definition get_brackets :: "string \<Rightarrow> OrdinaryBracket list" where
  "get_brackets fs =
     (if fs = ''married'' then FEDERAL_BRACKETS_MARRIED else FEDERAL_BRACKETS_SINGLE)"

text \<open>
  The loop of \<^verbatim>\<open>_apply_ordinary_brackets\<close> over \<^verbatim>\<open>enumerate(brackets)\<close>: the
  argument list is the part of the table not visited yet, so \<^verbatim>\<open>i + 1 < len(brackets)\<close>
  holds exactly when a bracket follows the current one, and \<^verbatim>\<open>brackets[i + 1][0]\<close>
  is the threshold of that bracket. The last argument is the running \<^verbatim>\<open>tax\<close>.
\<close>

fun brackets_loop :: "real \<Rightarrow> OrdinaryBracket list \<Rightarrow> real \<Rightarrow> real" where
  "brackets_loop taxable_income [] tax = tax"
| "brackets_loop taxable_income ((threshold, rate) # rest) tax =
     (let amount_in_bracket =
            (case rest of
               (next_threshold, _) # _ \<Rightarrow>
                 max 0 (min taxable_income next_threshold - threshold)
             | [] \<Rightarrow> max 0 (taxable_income - threshold))
      in if amount_in_bracket \<le> 0 then brackets_loop taxable_income rest tax
         else brackets_loop taxable_income rest (tax + amount_in_bracket * rate))"

definition apply_ordinary_brackets :: "real \<Rightarrow> OrdinaryBracket list \<Rightarrow> real" where
  "apply_ordinary_brackets taxable_income brackets =
     (if taxable_income \<le> 0 then 0 else brackets_loop taxable_income brackets 0)"

definition capital_gains_rate :: real where
  "capital_gains_rate = 0.15"

definition federal_capital_tax :: "TaxInput \<Rightarrow> real" where
  "federal_capital_tax ti = max 0 (capital_gains_income ti) * capital_gains_rate"

definition compute_taxes :: "TaxInput \<Rightarrow> py_error + TaxResult" where
  "compute_taxes ti =
     (let fs = (if filing_status ti \<in> {''single'', ''married''} then filing_status ti
                else ''single'');
          brackets = get_brackets fs
      in case dict_index STANDARD_DEDUCTION ''single'' of
           Inl e \<Rightarrow> Inl e
         | Inr dflt \<Rightarrow>
            (let std_deduction = dict_get STANDARD_DEDUCTION fs dflt;
                 taxable_ordinary = max 0 (ordinary_income ti - std_deduction);
                 federal_ordinary_tax = apply_ordinary_brackets taxable_ordinary brackets;
                 federal_tax = federal_ordinary_tax + federal_capital_tax ti;
                 total_income = ordinary_income ti + capital_gains_income ti;
                 state_tax = max 0 total_income * max 0 (state_rate ti);
                 total_tax = federal_tax + state_tax;
                 effective_rate = (if total_income > 0 then total_tax / total_income else 0)
             in Inr \<lparr>total_tax = total_tax, effective_rate = effective_rate,
                     federal_tax = federal_tax, state_tax = state_tax,
                     ordinary_income_taxed = taxable_ordinary,
                     capital_gains_taxed = capital_gains_income ti\<rparr>))"

definition estimate_brokerage_gains :: "real \<Rightarrow> real \<Rightarrow> real" where
  "estimate_brokerage_gains withdrawal gain_fraction =
     (if withdrawal \<le> 0 then 0
      else withdrawal * max 0 (min 1 gain_fraction))"

subsection \<open>calculations.py\<close>

record ProjectionConfig =
  current_age :: int
  retire_age :: int
  end_age :: int
  current_401k_balance :: real
  current_brokerage_balance :: real
  annual_401k_contribution :: real
  annual_brokerage_contribution :: real
  real_return_401k :: real
  real_return_brokerage :: real
  swr :: real
  filing_status :: string
  state_tax_rate :: real
  withdrawal_order :: string

definition year_sequence :: "ProjectionConfig \<Rightarrow> int list" where
  "year_sequence config = [current_age config..end_age config]"

definition SOCIAL_SECURITY_MAX_AGE_62 :: real where
  "SOCIAL_SECURITY_MAX_AGE_62 = 41000"

definition SOCIAL_SECURITY_COLA :: real where
  "SOCIAL_SECURITY_COLA = 0.025"

text \<open>
  The body of the loop of \<^verbatim>\<open>run_projection\<close> is split where it can raise.
  \<open>YearLocals\<close> holds the local variables of one iteration as they are when the
  balances have been updated (lines 50 to 100 and 113 to 114 of calculations.py);
  \<open>balance_401k\<close> and \<open>balance_brokerage\<close> are the balances carried to the next
  iteration.
\<close>

record YearLocals =
  age :: int
  year_index :: int
  is_retirement_year :: bool
  post_growth_401k :: real
  post_growth_brokerage :: real
  withdrawal_total :: real
  withdrawal_401k :: real
  withdrawal_brokerage :: real
  social_security_income :: real
  balance_401k :: real
  balance_brokerage :: real

definition year_locals :: "ProjectionConfig \<Rightarrow> int \<Rightarrow> real \<Rightarrow> real \<Rightarrow> YearLocals" where
  "year_locals config a bal_401k bal_brokerage =
     (let yi = a - current_age config;
          retired = (a \<ge> retire_age config);
          pre_growth_401k =
            (if \<not> retired then bal_401k + annual_401k_contribution config else bal_401k);
          pre_growth_brokerage =
            (if \<not> retired then bal_brokerage + annual_brokerage_contribution config
             else bal_brokerage);
          pg_401k = pre_growth_401k * (1 + real_return_401k config);
          pg_brokerage = pre_growth_brokerage * (1 + real_return_brokerage config);
          ss = (if retired \<and> a \<ge> 62
                then SOCIAL_SECURITY_MAX_AGE_62 * (1 + SOCIAL_SECURITY_COLA) ^ nat (a - 62)
                else 0);
          (w_total, w_401k, w_brokerage, new_401k, new_brokerage) =
            (if retired then
               (let total = (pg_401k + pg_brokerage) * swr config;
                    (from_401k, from_brokerage) =
                      (if withdrawal_order config = ''brokerage_first''
                       then (let fb = min total pg_brokerage in (total - fb, fb))
                       else (let f4 = min total pg_401k in (f4, total - f4)))
                in (total, from_401k, from_brokerage,
                    pg_401k - from_401k, pg_brokerage - from_brokerage))
             else (0, 0, 0, pg_401k, pg_brokerage))
      in \<lparr>age = a, year_index = yi, is_retirement_year = retired,
          post_growth_401k = pg_401k, post_growth_brokerage = pg_brokerage,
          withdrawal_total = w_total, withdrawal_401k = w_401k,
          withdrawal_brokerage = w_brokerage, social_security_income = ss,
          balance_401k = new_401k, balance_brokerage = new_brokerage\<rparr>)"

text \<open>
  Lines 81 to 82 and 102 to 111: in a retirement year the projector estimates the
  capital gains, constructs the TaxInput with five keyword arguments and calls
  \<^verbatim>\<open>compute_taxes\<close>; otherwise \<^verbatim>\<open>tax_result\<close> stays None.
\<close>

definition year_taxes :: "ProjectionConfig \<Rightarrow> YearLocals \<Rightarrow> py_error + TaxResult option" where
  "year_taxes config v =
     (if is_retirement_year v then
        (let est_cap_gains = estimate_brokerage_gains (withdrawal_brokerage v) 0.5
         in case TaxInput_init
                   [(''filing_status'', PyStr (filing_status config)),
                    (''state_rate'', PyFloat (state_tax_rate config)),
                    (''ordinary_income'', PyFloat (withdrawal_401k v)),
                    (''capital_gains_income'', PyFloat est_cap_gains),
                    (''social_security_income'', PyFloat (social_security_income v))] of
              Inl e \<Rightarrow> Inl e
            | Inr tax_input \<Rightarrow>
                (case compute_taxes tax_input of
                   Inl e \<Rightarrow> Inl e
                 | Inr tax_result \<Rightarrow> Inr (Some tax_result)))
      else Inr None)"

record YearRecord =
  age :: int
  year_index :: int
  is_retirement_year :: bool
  balance_401k :: real
  balance_brokerage :: real
  total_balance :: real
  withdrawal_total :: real
  withdrawal_401k :: real
  withdrawal_brokerage :: real
  social_security_income :: real
  tax_total :: real
  net_income_after_tax :: real
  tax_effective_rate :: real
  federal_tax :: real
  state_tax :: real

text \<open>Lines 116 to 153: the row of the year.\<close>

definition year_row :: "YearLocals \<Rightarrow> TaxResult option \<Rightarrow> YearRecord" where
  "year_row v tax_result =
     (let total_bal = YearLocals.balance_401k v + YearLocals.balance_brokerage v;
          tax = (case tax_result of Some r \<Rightarrow> total_tax r | None \<Rightarrow> 0);
          total_income = YearLocals.withdrawal_total v + YearLocals.social_security_income v;
          net_income = total_income - tax
      in \<lparr>age = YearLocals.age v,
          year_index = YearLocals.year_index v,
          is_retirement_year = YearLocals.is_retirement_year v,
          balance_401k = YearLocals.balance_401k v,
          balance_brokerage = YearLocals.balance_brokerage v,
          total_balance = total_bal,
          withdrawal_total = YearLocals.withdrawal_total v,
          withdrawal_401k = YearLocals.withdrawal_401k v,
          withdrawal_brokerage = YearLocals.withdrawal_brokerage v,
          social_security_income = YearLocals.social_security_income v,
          tax_total = tax,
          net_income_after_tax = net_income,
          tax_effective_rate =
            (case tax_result of Some r \<Rightarrow> effective_rate r | None \<Rightarrow> 0),
          federal_tax =
            (case tax_result of Some r \<Rightarrow> TaxResult.federal_tax r | None \<Rightarrow> 0),
          state_tax =
            (case tax_result of Some r \<Rightarrow> TaxResult.state_tax r | None \<Rightarrow> 0)\<rparr>)"

text \<open>
  One iteration: the row appended to \<^verbatim>\<open>rows\<close> and the two balances carried on, or
  the exception raised.
\<close>

definition year_body ::
  "ProjectionConfig \<Rightarrow> int \<Rightarrow> real \<times> real \<Rightarrow> py_error + YearRecord \<times> (real \<times> real)" where
  "year_body config a bal =
     (let v = year_locals config a (fst bal) (snd bal)
      in case year_taxes config v of
           Inl e \<Rightarrow> Inl e
         | Inr tax_result \<Rightarrow>
             Inr (year_row v tax_result,
                  (YearLocals.balance_401k v, YearLocals.balance_brokerage v)))"

fun projection_loop ::
  "ProjectionConfig \<Rightarrow> int list \<Rightarrow> real \<times> real \<Rightarrow> YearRecord list \<Rightarrow> py_error + YearRecord list"
  where
  "projection_loop config [] bal rows = Inr rows"
| "projection_loop config (a # years) bal rows =
     (case year_body config a bal of
        Inl e \<Rightarrow> Inl e
      | Inr (row, bal') \<Rightarrow> projection_loop config years bal' (rows @ [row]))"

text \<open>The data frame returned is the list of rows, in the order appended.\<close>

definition run_projection :: "ProjectionConfig \<Rightarrow> py_error + YearRecord list" where
  "run_projection config =
     projection_loop config (year_sequence config)
       (current_401k_balance config, current_brokerage_balance config) []"

subsection \<open>The bracket rule in the words of the specification\<close>

text \<open>
  The specification states the progressive bracket rule by index: bracket \<open>i\<close>, with
  threshold \<open>t i\<close> and rate \<open>r i\<close>, taxes \<open>max 0 (min taxable (t (i + 1)) - t i)\<close> at
  rate \<open>r i\<close>, the last bracket taxes \<open>max 0 (taxable - t i)\<close>, and the tax is the sum
  of the products. These two definitions follow that wording, not the code; they are
  compared with \<open>apply_ordinary_brackets\<close> below.
\<close>

definition spec_amount_in_bracket :: "real \<Rightarrow> OrdinaryBracket list \<Rightarrow> nat \<Rightarrow> real" where
  "spec_amount_in_bracket taxable_income brackets i =
     (if i + 1 < length brackets
      then max 0 (min taxable_income (fst (brackets ! (i + 1))) - fst (brackets ! i))
      else max 0 (taxable_income - fst (brackets ! i)))"

definition spec_bracket_tax :: "real \<Rightarrow> OrdinaryBracket list \<Rightarrow> real" where
  "spec_bracket_tax taxable_income brackets =
     (\<Sum>i\<leftarrow>[0..<length brackets].
        spec_amount_in_bracket taxable_income brackets i * snd (brackets ! i))"

subsection \<open>Runs of years before retirement\<close>

text \<open>
  A predicate used to state what a returned projection looks like: every row is the
  row \<open>year_row\<close> builds for its age from the balances of the row before it (the
  starting balances for the first row), with no tax result.
\<close>

fun rows_chain :: "ProjectionConfig \<Rightarrow> real \<times> real \<Rightarrow> YearRecord list \<Rightarrow> bool" where
  "rows_chain config bal [] = True"
| "rows_chain config bal (row # rows) =
     (row = year_row (year_locals config (age row) (fst bal) (snd bal)) None \<and>
      rows_chain config (balance_401k row, balance_brokerage row) rows)"

subsection \<open>The balances of a year in binary64 arithmetic\<close>

text \<open>
  Python floats are IEEE 754 binary64 numbers, and every arithmetic operation returns
  the representable number nearest to the exact result, ties going to the even
  mantissa. \<open>f64\<close> is that rounding for results in the normal range: the mantissa
  has 53 bits, so a number of binary exponent \<open>e\<close> is rounded to a multiple of
  \<open>2 ^ (e - 52)\<close>. Subnormal numbers, overflow, infinities and NaN are not modelled.
  \<open>bit_length n\<close> is the number of binary digits of \<open>n\<close>, and \<open>f64_exponent x\<close> is
  the integer part of the binary logarithm of \<open>\<bar>x\<bar>\<close>, for \<open>x \<noteq> 0\<close>.
\<close>

fun bit_length :: "nat \<Rightarrow> nat" where
  "bit_length n = (if n = 0 then 0 else Suc (bit_length (n div 2)))"

definition f64_exponent :: "real \<Rightarrow> int" where
  "f64_exponent x =
     (if 1 \<le> \<bar>x\<bar> then int (bit_length (nat \<lfloor>\<bar>x\<bar>\<rfloor>)) - 1
      else - int (bit_length (nat (\<lceil>1 / \<bar>x\<bar>\<rceil> - 1))))"

definition pow2 :: "int \<Rightarrow> real" where
  "pow2 e = (if 0 \<le> e then 2 ^ nat e else 1 / 2 ^ nat (- e))"

definition round_half_even :: "real \<Rightarrow> int" where
  "round_half_even y =
     (let f = \<lfloor>y\<rfloor>; d = y - of_int f
      in if d < 1 / 2 then f else if 1 / 2 < d then f + 1
         else if even f then f else f + 1)"

definition f64 :: "real \<Rightarrow> real" where
  "f64 x =
     (if x = 0 then 0
      else let u = pow2 (f64_exponent x - 52)
           in of_int (round_half_even (x / u)) * u)"



section \<open>Properties of the tax estimator\<close>

lemma compute_taxes_unfold:
  "compute_taxes ti =
     (let married = (TaxInput.filing_status ti = ''married'');
          taxable_ordinary = max 0 (ordinary_income ti - (if married then 29200 else 14600));
          fed = apply_ordinary_brackets taxable_ordinary
                  (if married then FEDERAL_BRACKETS_MARRIED else FEDERAL_BRACKETS_SINGLE)
                + federal_capital_tax ti;
          total_income = ordinary_income ti + capital_gains_income ti;
          st = max 0 total_income * max 0 (state_rate ti)
      in Inr \<lparr>total_tax = fed + st,
              effective_rate = (if total_income > 0 then (fed + st) / total_income else 0),
              federal_tax = fed, state_tax = st,
              ordinary_income_taxed = taxable_ordinary,
              capital_gains_taxed = capital_gains_income ti\<rparr>)"
  by (simp add: compute_taxes_def dict_index_def dict_get_def STANDARD_DEDUCTION_def
      get_brackets_def Let_def)

lemma brackets_loop_acc: "brackets_loop x bs tax = tax + brackets_loop x bs 0"
proof (induction bs arbitrary: tax)
  case Nil
  show ?case by simp
next
  case (Cons b bs)
  obtain t r where b: "b = (t, r)" by (cases b)
  define a where
    "a = (case bs of (nt, _) # _ \<Rightarrow> max 0 (min x nt - t) | [] \<Rightarrow> max 0 (x - t))"
  have A: "brackets_loop x bs (tax + a * r) = tax + a * r + brackets_loop x bs 0"
    by (rule Cons.IH)
  have B: "brackets_loop x bs (a * r) = a * r + brackets_loop x bs 0"
    by (rule Cons.IH)
  have C: "brackets_loop x bs tax = tax + brackets_loop x bs 0"
    by (rule Cons.IH)
  show ?case
    unfolding b by (simp add: Let_def a_def [symmetric] A B C)
qed

lemma brackets_loop_Cons:
  "brackets_loop x ((t, r) # rest) tax =
     tax + (case rest of (nt, _) # _ \<Rightarrow> max 0 (min x nt - t) | [] \<Rightarrow> max 0 (x - t)) * r
         + brackets_loop x rest 0"
proof -
  let ?a = "(case rest of (nt, _) # _ \<Rightarrow> max 0 (min x nt - t) | [] \<Rightarrow> max 0 (x - t))"
  have "0 \<le> ?a" by (simp split: list.split prod.split)
  then have "?a \<le> 0 \<Longrightarrow> ?a = 0" by simp
  then show ?thesis
    using brackets_loop_acc [of x rest "tax + ?a * r"] brackets_loop_acc [of x rest tax]
    by (auto simp: Let_def)
qed

lemma amount_nonneg:
  "0 \<le> (case rest of (nt, _) # _ \<Rightarrow> max 0 (min x nt - t) | [] \<Rightarrow> max (0::real) (x - t))"
  by (simp split: list.split prod.split)

lemma amount_mono:
  "x \<le> y \<Longrightarrow>
   (case rest of (nt, _) # _ \<Rightarrow> max 0 (min x nt - t) | [] \<Rightarrow> max (0::real) (x - t))
   \<le> (case rest of (nt, _) # _ \<Rightarrow> max 0 (min y nt - t) | [] \<Rightarrow> max 0 (y - t))"
  by (auto split: list.split prod.split)

lemma brackets_loop_nonneg:
  "\<forall>b \<in> set bs. 0 \<le> snd b \<Longrightarrow> 0 \<le> brackets_loop x bs 0"
proof (induction bs)
  case Nil
  show ?case by simp
next
  case (Cons b bs)
  obtain t r where b: "b = (t, r)" by (cases b)
  from Cons.prems have r: "0 \<le> r" and rest: "\<forall>b \<in> set bs. 0 \<le> snd b"
    by (simp_all add: b)
  have "0 \<le> (case bs of (nt, _) # _ \<Rightarrow> max 0 (min x nt - t) | [] \<Rightarrow> max 0 (x - t)) * r"
    using amount_nonneg r by (rule mult_nonneg_nonneg)
  with Cons.IH [OF rest] show ?case
    unfolding b brackets_loop_Cons by simp
qed

lemma brackets_loop_mono:
  "x \<le> y \<Longrightarrow> \<forall>b \<in> set bs. 0 \<le> snd b \<Longrightarrow> brackets_loop x bs 0 \<le> brackets_loop y bs 0"
proof (induction bs)
  case Nil
  show ?case by simp
next
  case (Cons b bs)
  obtain t r where b: "b = (t, r)" by (cases b)
  from Cons.prems have r: "0 \<le> r" and rest: "\<forall>b \<in> set bs. 0 \<le> snd b"
    by (simp_all add: b)
  have "(case bs of (nt, _) # _ \<Rightarrow> max 0 (min x nt - t) | [] \<Rightarrow> max 0 (x - t)) * r
        \<le> (case bs of (nt, _) # _ \<Rightarrow> max 0 (min y nt - t) | [] \<Rightarrow> max 0 (y - t)) * r"
    using amount_mono [OF Cons.prems(1)] r by (rule mult_right_mono)
  with Cons.IH [OF Cons.prems(1) rest] show ?case
    unfolding b brackets_loop_Cons by simp
qed

lemma apply_ordinary_brackets_mono:
  assumes "x \<le> y" and "\<forall>b \<in> set bs. 0 \<le> snd b"
  shows "apply_ordinary_brackets x bs \<le> apply_ordinary_brackets y bs"
  using brackets_loop_mono [OF assms] brackets_loop_nonneg [OF assms(2), of y] assms(1)
  by (simp add: apply_ordinary_brackets_def)

lemma apply_ordinary_brackets_nonneg:
  "\<forall>b \<in> set bs. 0 \<le> snd b \<Longrightarrow> 0 \<le> apply_ordinary_brackets x bs"
  using brackets_loop_nonneg [of bs x] by (simp add: apply_ordinary_brackets_def)

lemma federal_rates_nonneg:
  "\<forall>b \<in> set FEDERAL_BRACKETS_SINGLE. 0 \<le> snd b"
  "\<forall>b \<in> set FEDERAL_BRACKETS_MARRIED. 0 \<le> snd b"
  by (simp_all add: FEDERAL_BRACKETS_SINGLE_def FEDERAL_BRACKETS_MARRIED_def)

lemma federal_thresholds_nonneg:
  "\<forall>b \<in> set FEDERAL_BRACKETS_SINGLE. 0 \<le> fst b"
  "\<forall>b \<in> set FEDERAL_BRACKETS_MARRIED. 0 \<le> fst b"
  by (simp_all add: FEDERAL_BRACKETS_SINGLE_def FEDERAL_BRACKETS_MARRIED_def)

lemma brackets_loop_pos:
  assumes "0 < x" "0 < r" "0 < nt" "0 \<le> nr" "\<forall>b \<in> set rest. 0 \<le> snd b"
  shows "0 < brackets_loop x ((0, r) # (nt, nr) # rest) 0"
proof -
  have "0 \<le> brackets_loop x ((nt, nr) # rest) 0"
    by (rule brackets_loop_nonneg) (simp add: assms)
  moreover have "0 < max 0 (min x nt - 0) * r"
    using assms by simp
  moreover have "brackets_loop x ((0, r) # (nt, nr) # rest) 0 =
      0 + max 0 (min x nt - 0) * r + brackets_loop x ((nt, nr) # rest) 0"
    by (subst brackets_loop_Cons) simp
  ultimately show ?thesis by linarith
qed

lemma apply_ordinary_brackets_pos:
  assumes "0 < x"
  shows "0 < apply_ordinary_brackets x FEDERAL_BRACKETS_SINGLE"
    and "0 < apply_ordinary_brackets x FEDERAL_BRACKETS_MARRIED"
proof -
  have "0 < brackets_loop x FEDERAL_BRACKETS_SINGLE 0"
    unfolding FEDERAL_BRACKETS_SINGLE_def using assms
    by (intro brackets_loop_pos) simp_all
  then show "0 < apply_ordinary_brackets x FEDERAL_BRACKETS_SINGLE"
    using assms by (simp add: apply_ordinary_brackets_def)
  have "0 < brackets_loop x FEDERAL_BRACKETS_MARRIED 0"
    unfolding FEDERAL_BRACKETS_MARRIED_def using assms
    by (intro brackets_loop_pos) simp_all
  then show "0 < apply_ordinary_brackets x FEDERAL_BRACKETS_MARRIED"
    using assms by (simp add: apply_ordinary_brackets_def)
qed

lemma spec_bracket_tax_Cons:
  "spec_bracket_tax x ((t, r) # rest) =
     (case rest of (nt, _) # _ \<Rightarrow> max 0 (min x nt - t) | [] \<Rightarrow> max 0 (x - t)) * r
     + spec_bracket_tax x rest"
proof -
  have idx: "[0..<length ((t, r) # rest)] = 0 # map Suc [0..<length rest]"
    by (simp only: list.size(4) One_nat_def add_Suc_right add_0_right
        upt_conv_Cons [OF zero_less_Suc] map_Suc_upt)
  have shift: "spec_amount_in_bracket x ((t, r) # rest) (Suc i) = spec_amount_in_bracket x rest i"
    for i
    by (simp add: spec_amount_in_bracket_def)
  have first: "spec_amount_in_bracket x ((t, r) # rest) 0 =
      (case rest of (nt, _) # _ \<Rightarrow> max 0 (min x nt - t) | [] \<Rightarrow> max 0 (x - t))"
    by (simp add: spec_amount_in_bracket_def split: list.split prod.split)
  show ?thesis
    unfolding spec_bracket_tax_def idx
    by (simp add: shift first comp_def)
qed

lemma brackets_loop_spec: "brackets_loop x bs 0 = spec_bracket_tax x bs"
proof (induction bs)
  case Nil
  show ?case by (simp add: spec_bracket_tax_def)
next
  case (Cons b bs)
  obtain t r where b: "b = (t, r)" by (cases b)
  show ?case
    unfolding b brackets_loop_Cons spec_bracket_tax_Cons using Cons.IH by simp
qed

lemma spec_bracket_tax_nonpos:
  "x \<le> 0 \<Longrightarrow> \<forall>b \<in> set bs. 0 \<le> fst b \<Longrightarrow> spec_bracket_tax x bs = 0"
proof (induction bs)
  case Nil
  show ?case by (simp add: spec_bracket_tax_def)
next
  case (Cons b bs)
  obtain t r where b: "b = (t, r)" by (cases b)
  from Cons.prems have t: "0 \<le> t" and rest: "\<forall>b \<in> set bs. 0 \<le> fst b"
    by (simp_all add: b)
  have "(case bs of (nt, _) # _ \<Rightarrow> max 0 (min x nt - t) | [] \<Rightarrow> max 0 (x - t)) = 0"
    using t Cons.prems(1) by (auto split: list.split prod.split)
  with Cons.IH [OF Cons.prems(1) rest] show ?case
    unfolding b spec_bracket_tax_Cons by simp
qed

lemma apply_ordinary_brackets_spec:
  "\<forall>b \<in> set bs. 0 \<le> fst b \<Longrightarrow> apply_ordinary_brackets x bs = spec_bracket_tax x bs"
  by (simp add: apply_ordinary_brackets_def brackets_loop_spec spec_bracket_tax_nonpos)

lemma compute_taxes_total_tax:
  "compute_taxes ti = Inr r \<Longrightarrow>
   total_tax r =
     apply_ordinary_brackets
       (max 0 (ordinary_income ti -
          (if TaxInput.filing_status ti = ''married'' then 29200 else 14600)))
       (if TaxInput.filing_status ti = ''married'' then FEDERAL_BRACKETS_MARRIED
        else FEDERAL_BRACKETS_SINGLE)
     + federal_capital_tax ti
     + max 0 (ordinary_income ti + capital_gains_income ti) * max 0 (state_rate ti)"
  by (auto simp: compute_taxes_unfold Let_def)

lemma compute_taxes_returns: "\<exists>r. compute_taxes ti = Inr r"
  by (simp add: compute_taxes_unfold Let_def)

text \<open>
  Claim C5. \<open>compute_taxes\<close> taxes ordinary income by marginal brackets: the taxed
  amount is the ordinary income less the standard deduction of the filing status,
  floored at zero, and the federal tax on it is the sum over the brackets of the
  specification's per-bracket amount times the bracket's rate (plus the flat tax on
  capital gains). For a single filer with ordinary income 60000, no capital gains and
  state rate 0, the total tax is 5216 and the effective rate 5216/60000.
\<close>

theorem compute_taxes_marginal_brackets:
  "(\<exists>r. compute_taxes ti = Inr r \<and>
        ordinary_income_taxed r =
          max 0 (ordinary_income ti -
            (if TaxInput.filing_status ti = ''married'' then 29200 else 14600)) \<and>
        TaxResult.federal_tax r =
          spec_bracket_tax (ordinary_income_taxed r)
            (if TaxInput.filing_status ti = ''married'' then FEDERAL_BRACKETS_MARRIED
             else FEDERAL_BRACKETS_SINGLE)
          + max 0 (capital_gains_income ti) * 0.15) \<and>
   compute_taxes \<lparr>TaxInput.filing_status = ''single'', state_rate = 0,
                  ordinary_income = 60000, capital_gains_income = 0\<rparr> =
     Inr \<lparr>total_tax = 5216, effective_rate = 5216 / 60000,
          TaxResult.federal_tax = 5216, TaxResult.state_tax = 0,
          ordinary_income_taxed = 45400, capital_gains_taxed = 0\<rparr>"
proof (intro conjI)
  show "\<exists>r. compute_taxes ti = Inr r \<and>
        ordinary_income_taxed r =
          max 0 (ordinary_income ti -
            (if TaxInput.filing_status ti = ''married'' then 29200 else 14600)) \<and>
        TaxResult.federal_tax r =
          spec_bracket_tax (ordinary_income_taxed r)
            (if TaxInput.filing_status ti = ''married'' then FEDERAL_BRACKETS_MARRIED
             else FEDERAL_BRACKETS_SINGLE)
          + max 0 (capital_gains_income ti) * 0.15"
    by (simp add: compute_taxes_unfold Let_def federal_capital_tax_def capital_gains_rate_def
        apply_ordinary_brackets_spec federal_thresholds_nonneg)
next
  have "apply_ordinary_brackets 45400 FEDERAL_BRACKETS_SINGLE = 5216"
    by (simp add: apply_ordinary_brackets_def FEDERAL_BRACKETS_SINGLE_def Let_def)
  then show "compute_taxes \<lparr>TaxInput.filing_status = ''single'', state_rate = 0,
                  ordinary_income = 60000, capital_gains_income = 0\<rparr> =
     Inr \<lparr>total_tax = 5216, effective_rate = 5216 / 60000,
          TaxResult.federal_tax = 5216, TaxResult.state_tax = 0,
          ordinary_income_taxed = 45400, capital_gains_taxed = 0\<rparr>"
    by (simp add: compute_taxes_unfold Let_def federal_capital_tax_def)
qed

text \<open>
  Claim C6 as stated fails: a single filer with ordinary income 20000 and a capital
  loss of 20000 has total income 0 and still owes 540 of federal tax on the 5400 of
  ordinary income above the deduction. Losses do not offset ordinary income.
\<close>

theorem compute_taxes_nonpositive_income_counterexample:
  "ordinary_income \<lparr>TaxInput.filing_status = ''single'', state_rate = 0,
                    ordinary_income = 20000, capital_gains_income = - 20000\<rparr>
   + capital_gains_income \<lparr>TaxInput.filing_status = ''single'', state_rate = 0,
                    ordinary_income = 20000, capital_gains_income = - 20000\<rparr> \<le> 0 \<and>
   compute_taxes \<lparr>TaxInput.filing_status = ''single'', state_rate = 0,
                  ordinary_income = 20000, capital_gains_income = - 20000\<rparr> =
     Inr \<lparr>total_tax = 540, effective_rate = 0,
          TaxResult.federal_tax = 540, TaxResult.state_tax = 0,
          ordinary_income_taxed = 5400, capital_gains_taxed = - 20000\<rparr>"
proof -
  have "apply_ordinary_brackets 5400 FEDERAL_BRACKETS_SINGLE = 540"
    by (simp add: apply_ordinary_brackets_def FEDERAL_BRACKETS_SINGLE_def Let_def)
  then show ?thesis
    by (simp add: compute_taxes_unfold Let_def federal_capital_tax_def)
qed

text \<open>
  Claim C6, amended. When the total income is at most 0, \<open>compute_taxes\<close> returns
  effective rate 0 and state tax 0; the total tax is 0 exactly when the ordinary income
  does not exceed the standard deduction of the filing status and the capital gains
  are at most 0.
\<close>

theorem compute_taxes_nonpositive_income:
  assumes "ordinary_income ti + capital_gains_income ti \<le> 0"
  shows "\<exists>r. compute_taxes ti = Inr r \<and> effective_rate r = 0 \<and> TaxResult.state_tax r = 0 \<and>
           (total_tax r = 0 \<longleftrightarrow>
              ordinary_income ti
                \<le> (if TaxInput.filing_status ti = ''married'' then 29200 else 14600) \<and>
              capital_gains_income ti \<le> 0)"
proof -
  define d :: real where
    "d = (if TaxInput.filing_status ti = ''married'' then 29200 else 14600)"
  define bs where
    "bs = (if TaxInput.filing_status ti = ''married'' then FEDERAL_BRACKETS_MARRIED
           else FEDERAL_BRACKETS_SINGLE)"
  define ord where "ord = apply_ordinary_brackets (max 0 (ordinary_income ti - d)) bs"
  have rates: "\<forall>b \<in> set bs. 0 \<le> snd b"
    by (simp add: bs_def federal_rates_nonneg)
  have ord_nonneg: "0 \<le> ord"
    unfolding ord_def by (rule apply_ordinary_brackets_nonneg [OF rates])
  have ord_zero: "ord = 0 \<longleftrightarrow> ordinary_income ti \<le> d"
  proof
    assume z: "ord = 0"
    show "ordinary_income ti \<le> d"
    proof (rule ccontr)
      assume "\<not> ordinary_income ti \<le> d"
      then have "0 < max 0 (ordinary_income ti - d)" by simp
      then have "0 < ord"
        unfolding ord_def bs_def by (simp add: apply_ordinary_brackets_pos)
      with z show False by simp
    qed
  next
    assume "ordinary_income ti \<le> d"
    then show "ord = 0"
      by (simp add: ord_def apply_ordinary_brackets_def max_def)
  qed
  have cap_nonneg: "0 \<le> federal_capital_tax ti"
    by (simp add: federal_capital_tax_def capital_gains_rate_def)
  have cap_zero: "federal_capital_tax ti = 0 \<longleftrightarrow> capital_gains_income ti \<le> 0"
    by (auto simp: federal_capital_tax_def capital_gains_rate_def max_def)
  have sum_zero: "ord + federal_capital_tax ti = 0 \<longleftrightarrow>
      ordinary_income ti \<le> d \<and> capital_gains_income ti \<le> 0"
    using ord_nonneg cap_nonneg ord_zero cap_zero by linarith
  show ?thesis
    using assms sum_zero
    by (simp add: compute_taxes_unfold Let_def d_def [symmetric] bs_def [symmetric]
        ord_def [symmetric] max_absorb1)
qed

text \<open>A married filer with ordinary income 10000 and a capital loss of 20000.\<close>

theorem compute_taxes_nonpositive_income_witness:
  "ordinary_income \<lparr>TaxInput.filing_status = ''married'', state_rate = 0.05,
                    ordinary_income = 10000, capital_gains_income = - 20000\<rparr>
   + capital_gains_income \<lparr>TaxInput.filing_status = ''married'', state_rate = 0.05,
                    ordinary_income = 10000, capital_gains_income = - 20000\<rparr> \<le> 0 \<and>
   (\<exists>r. compute_taxes \<lparr>TaxInput.filing_status = ''married'', state_rate = 0.05,
                    ordinary_income = 10000, capital_gains_income = - 20000\<rparr> = Inr r \<and>
        effective_rate r = 0 \<and> TaxResult.state_tax r = 0 \<and> total_tax r = 0)"
  using compute_taxes_nonpositive_income
    [of "\<lparr>TaxInput.filing_status = ''married'', state_rate = 0.05,
          ordinary_income = 10000, capital_gains_income = - 20000\<rparr>"]
  by simp

text \<open>
  Claim C9. \<open>compute_taxes\<close> is monotone in the ordinary income: of two inputs with the
  same filing status, state rate and capital gains, the one with the larger ordinary
  income owes at least as much total tax.
\<close>

theorem compute_taxes_monotone_ordinary_income:
  assumes "TaxInput.filing_status a = TaxInput.filing_status b"
    and "state_rate a = state_rate b"
    and "capital_gains_income a = capital_gains_income b"
    and "ordinary_income a \<le> ordinary_income b"
  shows "\<exists>ra rb. compute_taxes a = Inr ra \<and> compute_taxes b = Inr rb \<and>
           total_tax ra \<le> total_tax rb"
proof -
  obtain ra rb where ra: "compute_taxes a = Inr ra" and rb: "compute_taxes b = Inr rb"
    using compute_taxes_returns by blast
  define d :: real where
    "d = (if TaxInput.filing_status b = ''married'' then 29200 else 14600)"
  define bs where
    "bs = (if TaxInput.filing_status b = ''married'' then FEDERAL_BRACKETS_MARRIED
           else FEDERAL_BRACKETS_SINGLE)"
  have rates: "\<forall>b \<in> set bs. 0 \<le> snd b"
    by (simp add: bs_def federal_rates_nonneg)
  have "max 0 (ordinary_income a - d) \<le> max 0 (ordinary_income b - d)"
    using assms(4) by simp
  then have ord: "apply_ordinary_brackets (max 0 (ordinary_income a - d)) bs
      \<le> apply_ordinary_brackets (max 0 (ordinary_income b - d)) bs"
    using rates by (rule apply_ordinary_brackets_mono)
  have cap: "federal_capital_tax a = federal_capital_tax b"
    by (simp add: federal_capital_tax_def assms(3))
  have "max 0 (ordinary_income a + capital_gains_income b)
      \<le> max 0 (ordinary_income b + capital_gains_income b)"
    using assms(4) by simp
  then have st: "max 0 (ordinary_income a + capital_gains_income b) * max 0 (state_rate b)
      \<le> max 0 (ordinary_income b + capital_gains_income b) * max 0 (state_rate b)"
    by (rule mult_right_mono) simp
  have "total_tax ra \<le> total_tax rb"
    unfolding compute_taxes_total_tax [OF ra] compute_taxes_total_tax [OF rb]
    using ord cap st
    by (simp add: assms(1-3) d_def [symmetric] bs_def [symmetric])
  with ra rb show ?thesis by blast
qed

text \<open>Ordinary income 50000 against 60000, single filer.\<close>

theorem compute_taxes_monotone_ordinary_income_witness:
  "TaxInput.filing_status \<lparr>TaxInput.filing_status = ''single'', state_rate = 0.05,
       ordinary_income = 50000, capital_gains_income = 1000\<rparr> =
   TaxInput.filing_status \<lparr>TaxInput.filing_status = ''single'', state_rate = 0.05,
       ordinary_income = 60000, capital_gains_income = 1000\<rparr> \<and>
   (\<exists>ra rb.
      compute_taxes \<lparr>TaxInput.filing_status = ''single'', state_rate = 0.05,
        ordinary_income = 50000, capital_gains_income = 1000\<rparr> = Inr ra \<and>
      compute_taxes \<lparr>TaxInput.filing_status = ''single'', state_rate = 0.05,
        ordinary_income = 60000, capital_gains_income = 1000\<rparr> = Inr rb \<and>
      total_tax ra \<le> total_tax rb)"
  using compute_taxes_monotone_ordinary_income
    [of "\<lparr>TaxInput.filing_status = ''single'', state_rate = 0.05,
          ordinary_income = 50000, capital_gains_income = 1000\<rparr>"
        "\<lparr>TaxInput.filing_status = ''single'', state_rate = 0.05,
          ordinary_income = 60000, capital_gains_income = 1000\<rparr>"]
  by simp

text \<open>
  Claim C10. The field \<open>capital_gains_taxed\<close> of the result is the capital-gains income
  as given, while the capital-gains part of the federal tax is computed on that income
  floored at zero: for a negative capital-gains income the field is negative and the
  tax on it is 0.
\<close>

theorem compute_taxes_capital_gains_taxed_raw:
  "\<exists>r. compute_taxes ti = Inr r \<and>
        capital_gains_taxed r = capital_gains_income ti \<and>
        TaxResult.federal_tax r =
          apply_ordinary_brackets (ordinary_income_taxed r)
            (if TaxInput.filing_status ti = ''married'' then FEDERAL_BRACKETS_MARRIED
             else FEDERAL_BRACKETS_SINGLE)
          + federal_capital_tax ti \<and>
        federal_capital_tax ti = max 0 (capital_gains_income ti) * 0.15 \<and>
        (capital_gains_income ti < 0 \<longrightarrow>
           capital_gains_taxed r < 0 \<and> federal_capital_tax ti = 0)"
  by (simp add: compute_taxes_unfold Let_def federal_capital_tax_def capital_gains_rate_def)

text \<open>A capital loss of 1000.\<close>

theorem compute_taxes_capital_gains_taxed_raw_witness:
  "capital_gains_income \<lparr>TaxInput.filing_status = ''single'', state_rate = 0.05,
       ordinary_income = 30000, capital_gains_income = - 1000\<rparr> < 0 \<and>
   (\<exists>r. compute_taxes \<lparr>TaxInput.filing_status = ''single'', state_rate = 0.05,
          ordinary_income = 30000, capital_gains_income = - 1000\<rparr> = Inr r \<and>
        capital_gains_taxed r = - 1000 \<and>
        federal_capital_tax \<lparr>TaxInput.filing_status = ''single'', state_rate = 0.05,
          ordinary_income = 30000, capital_gains_income = - 1000\<rparr> = 0)"
  using compute_taxes_capital_gains_taxed_raw
    [of "\<lparr>TaxInput.filing_status = ''single'', state_rate = 0.05,
          ordinary_income = 30000, capital_gains_income = - 1000\<rparr>"]
  by auto

section \<open>Properties of the year projector\<close>

text \<open>
  The call of the projector passes \<open>social_security_income\<close>, which is no field of
  \<open>TaxInput\<close>: the constructor raises.
\<close>

lemma TaxInput_init_extra_keyword:
  "TaxInput_init [(''filing_status'', fs), (''state_rate'', sr), (''ordinary_income'', oi),
      (''capital_gains_income'', cg), (''social_security_income'', ss)] = Inl TypeError"
  by (simp add: TaxInput_init_def TaxInput_fields_def)

lemma year_taxes_retirement:
  "YearLocals.is_retirement_year v \<Longrightarrow> year_taxes config v = Inl TypeError"
  by (simp add: year_taxes_def Let_def TaxInput_init_extra_keyword)

lemma year_taxes_accumulation:
  "\<not> YearLocals.is_retirement_year v \<Longrightarrow> year_taxes config v = Inr None"
  by (simp add: year_taxes_def)

lemma year_locals_is_retirement_year [simp]:
  "YearLocals.is_retirement_year (year_locals config a b1 b2) \<longleftrightarrow> retire_age config \<le> a"
  by (simp add: year_locals_def Let_def split: prod.split)

lemma year_locals_age [simp]: "YearLocals.age (year_locals config a b1 b2) = a"
  by (simp add: year_locals_def Let_def split: prod.split)

lemma year_locals_year_index [simp]:
  "YearLocals.year_index (year_locals config a b1 b2) = a - current_age config"
  by (simp add: year_locals_def Let_def split: prod.split)

lemma year_locals_accumulation:
  "a < retire_age config \<Longrightarrow>
   year_locals config a b1 b2 =
     \<lparr>YearLocals.age = a, YearLocals.year_index = a - current_age config,
      YearLocals.is_retirement_year = False,
      post_growth_401k = (b1 + annual_401k_contribution config) * (1 + real_return_401k config),
      post_growth_brokerage =
        (b2 + annual_brokerage_contribution config) * (1 + real_return_brokerage config),
      YearLocals.withdrawal_total = 0, YearLocals.withdrawal_401k = 0,
      YearLocals.withdrawal_brokerage = 0, YearLocals.social_security_income = 0,
      YearLocals.balance_401k =
        (b1 + annual_401k_contribution config) * (1 + real_return_401k config),
      YearLocals.balance_brokerage =
        (b2 + annual_brokerage_contribution config) * (1 + real_return_brokerage config)\<rparr>"
  by (simp add: year_locals_def Let_def)

lemma year_body_retirement:
  "retire_age config \<le> a \<Longrightarrow> year_body config a bal = Inl TypeError"
  by (simp add: year_body_def Let_def year_taxes_retirement)

lemma year_body_accumulation:
  "a < retire_age config \<Longrightarrow>
   year_body config a bal =
     Inr (year_row (year_locals config a (fst bal) (snd bal)) None,
          (YearLocals.balance_401k (year_locals config a (fst bal) (snd bal)),
           YearLocals.balance_brokerage (year_locals config a (fst bal) (snd bal))))"
  by (simp add: year_body_def Let_def year_taxes_accumulation)

lemma year_row_fields [simp]:
  "age (year_row v tr) = YearLocals.age v"
  "year_index (year_row v tr) = YearLocals.year_index v"
  "is_retirement_year (year_row v tr) = YearLocals.is_retirement_year v"
  "balance_401k (year_row v tr) = YearLocals.balance_401k v"
  "balance_brokerage (year_row v tr) = YearLocals.balance_brokerage v"
  "withdrawal_total (year_row v tr) = YearLocals.withdrawal_total v"
  "withdrawal_401k (year_row v tr) = YearLocals.withdrawal_401k v"
  "withdrawal_brokerage (year_row v tr) = YearLocals.withdrawal_brokerage v"
  "social_security_income (year_row v tr) = YearLocals.social_security_income v"
  by (simp_all add: year_row_def Let_def)

lemma projection_loop_raises:
  "\<exists>a \<in> set years. retire_age config \<le> a \<Longrightarrow>
   projection_loop config years bal rows = Inl TypeError"
proof (induction years arbitrary: bal rows)
  case Nil
  then show ?case by simp
next
  case (Cons a years)
  show ?case
  proof (cases "retire_age config \<le> a")
    case True
    then show ?thesis by (simp add: year_body_retirement)
  next
    case False
    with Cons.prems have "\<exists>a \<in> set years. retire_age config \<le> a" by simp
    from Cons.IH [OF this] False show ?thesis
      by (simp add: year_body_accumulation)
  qed
qed

lemma projection_loop_returns:
  "\<forall>a \<in> set years. a < retire_age config \<Longrightarrow>
   \<exists>new. projection_loop config years bal rows = Inr (rows @ new) \<and>
         map age new = years \<and> rows_chain config bal new"
proof (induction years arbitrary: bal rows)
  case Nil
  then show ?case by simp
next
  case (Cons a years)
  from Cons.prems have a: "a < retire_age config"
    and rest: "\<forall>a \<in> set years. a < retire_age config" by simp_all
  define v where "v = year_locals config a (fst bal) (snd bal)"
  define row where "row = year_row v None"
  define bal' where "bal' = (YearLocals.balance_401k v, YearLocals.balance_brokerage v)"
  from Cons.IH [OF rest, of bal' "rows @ [row]"]
  obtain new where new: "projection_loop config years bal' (rows @ [row]) = Inr ((rows @ [row]) @ new)"
    and ages: "map age new = years" and chain: "rows_chain config bal' new"
    by blast
  have body: "year_body config a bal = Inr (row, bal')"
    using a by (simp add: year_body_accumulation row_def bal'_def v_def)
  have "projection_loop config (a # years) bal rows = Inr (rows @ (row # new))"
    using new by (simp add: body)
  moreover have "map age (row # new) = a # years"
    using ages by (simp add: row_def v_def)
  moreover have "rows_chain config bal (row # new)"
    using chain by (simp add: row_def v_def bal'_def)
  ultimately show ?case by (intro exI [of _ "row # new"] conjI)
qed

lemma year_sequence_retirement_iff:
  "(\<exists>a \<in> set (year_sequence config). retire_age config \<le> a) \<longleftrightarrow>
   current_age config \<le> end_age config \<and> retire_age config \<le> end_age config"
  by (auto simp: year_sequence_def)

lemma run_projection_raises:
  "current_age config \<le> end_age config \<Longrightarrow> retire_age config \<le> end_age config \<Longrightarrow>
   run_projection config = Inl TypeError"
  unfolding run_projection_def
  by (rule projection_loop_raises) (simp add: year_sequence_retirement_iff)

lemma run_projection_returns:
  assumes "end_age config < retire_age config"
  shows "\<exists>rows. run_projection config = Inr rows \<and>
           map age rows = [current_age config..end_age config] \<and>
           rows_chain config (current_401k_balance config, current_brokerage_balance config) rows"
proof -
  have "\<forall>a \<in> set (year_sequence config). a < retire_age config"
    using assms by (auto simp: year_sequence_def)
  from projection_loop_returns [OF this, of "(current_401k_balance config, current_brokerage_balance config)" "[]"]
  show ?thesis
    by (simp add: run_projection_def year_sequence_def)
qed

lemma run_projection_Inr:
  assumes "run_projection config = Inr rows"
  shows "(\<forall>a \<in> set (year_sequence config). a < retire_age config) \<and>
         map age rows = [current_age config..end_age config] \<and>
         rows_chain config (current_401k_balance config, current_brokerage_balance config) rows"
proof -
  have all: "\<forall>a \<in> set (year_sequence config). a < retire_age config"
  proof (rule ccontr)
    assume "\<not> ?thesis"
    then have "\<exists>a \<in> set (year_sequence config). retire_age config \<le> a"
      by (simp add: not_less)
    from projection_loop_raises [OF this] assms show False
      by (simp add: run_projection_def)
  qed
  from projection_loop_returns [OF all, of "(current_401k_balance config, current_brokerage_balance config)" "[]"]
    assms
  show ?thesis
    using all by (auto simp: run_projection_def year_sequence_def)
qed


lemma year_locals_retirement:
  "retire_age config \<le> a \<Longrightarrow>
   year_locals config a b1 b2 =
     (let pg1 = b1 * (1 + real_return_401k config);
          pg2 = b2 * (1 + real_return_brokerage config);
          wt = (pg1 + pg2) * swr config;
          f4 = (if withdrawal_order config = ''brokerage_first'' then wt - min wt pg2
                else min wt pg1);
          fb = (if withdrawal_order config = ''brokerage_first'' then min wt pg2
                else wt - min wt pg1)
      in \<lparr>YearLocals.age = a, YearLocals.year_index = a - current_age config,
          YearLocals.is_retirement_year = True,
          post_growth_401k = pg1, post_growth_brokerage = pg2,
          YearLocals.withdrawal_total = wt, YearLocals.withdrawal_401k = f4,
          YearLocals.withdrawal_brokerage = fb,
          YearLocals.social_security_income =
            (if 62 \<le> a then 41000 * (1 + 0.025) ^ nat (a - 62) else 0),
          YearLocals.balance_401k = pg1 - f4,
          YearLocals.balance_brokerage = pg2 - fb\<rparr>)"
  by (simp add: year_locals_def Let_def SOCIAL_SECURITY_MAX_AGE_62_def
      SOCIAL_SECURITY_COLA_def)

text \<open>
  In exact arithmetic the draws of a year are capped by the post-growth balances, and
  non-negative balances stay non-negative.
\<close>

lemma withdrawal_total_bounds:
  fixes p s :: real
  assumes "0 \<le> p" "0 \<le> s" "s \<le> 1"
  shows "0 \<le> p * s" and "p * s \<le> p"
proof -
  show "0 \<le> p * s" using assms(1,2) by (rule mult_nonneg_nonneg)
  have "p * s \<le> p * 1" using assms(3,1) by (rule mult_left_mono)
  then show "p * s \<le> p" by simp
qed

lemma year_locals_balances_nonneg:
  assumes contrib: "0 \<le> annual_401k_contribution config"
      "0 \<le> annual_brokerage_contribution config"
    and returns: "- 1 \<le> real_return_401k config" "- 1 \<le> real_return_brokerage config"
    and rate: "0 \<le> swr config" "swr config \<le> 1"
    and bal: "0 \<le> b1" "0 \<le> b2"
  shows "YearLocals.withdrawal_401k (year_locals config a b1 b2)
           \<le> post_growth_401k (year_locals config a b1 b2) \<and>
         YearLocals.withdrawal_brokerage (year_locals config a b1 b2)
           \<le> post_growth_brokerage (year_locals config a b1 b2) \<and>
         0 \<le> YearLocals.balance_401k (year_locals config a b1 b2) \<and>
         0 \<le> YearLocals.balance_brokerage (year_locals config a b1 b2)"
proof (cases "retire_age config \<le> a")
  case True
  define pg1 where "pg1 = b1 * (1 + real_return_401k config)"
  define pg2 where "pg2 = b2 * (1 + real_return_brokerage config)"
  define wt where "wt = (pg1 + pg2) * swr config"
  have g1: "0 \<le> 1 + real_return_401k config" and g2: "0 \<le> 1 + real_return_brokerage config"
    using returns by simp_all
  have p1: "0 \<le> pg1" unfolding pg1_def using bal(1) g1 by (rule mult_nonneg_nonneg)
  have p2: "0 \<le> pg2" unfolding pg2_def using bal(2) g2 by (rule mult_nonneg_nonneg)
  have "0 \<le> pg1 + pg2" using p1 p2 by simp
  from withdrawal_total_bounds [OF this rate]
  have w: "0 \<le> wt" "wt \<le> pg1 + pg2" by (simp_all add: wt_def)
  have "wt - min wt pg2 \<le> pg1" "min wt pg1 \<le> pg1" "min wt pg2 \<le> pg2"
    "wt - min wt pg1 \<le> pg2"
    using w p1 p2 by (simp_all add: min_def)
  then show ?thesis
    by (simp add: year_locals_retirement [OF True] Let_def
        pg1_def [symmetric] pg2_def [symmetric] wt_def [symmetric])
next
  case False
  then have acc: "a < retire_age config" by simp
  have g1: "0 \<le> 1 + real_return_401k config" and g2: "0 \<le> 1 + real_return_brokerage config"
    using returns by simp_all
  have "0 \<le> (b1 + annual_401k_contribution config) * (1 + real_return_401k config)"
    using bal(1) contrib(1) g1 by (intro mult_nonneg_nonneg) simp_all
  moreover have "0 \<le> (b2 + annual_brokerage_contribution config)
      * (1 + real_return_brokerage config)"
    using bal(2) contrib(2) g2 by (intro mult_nonneg_nonneg) simp_all
  ultimately show ?thesis
    by (simp add: year_locals_accumulation [OF acc])
qed

lemma year_row_None_fields [simp]:
  "tax_total (year_row v None) = 0"
  "net_income_after_tax (year_row v None) =
     YearLocals.withdrawal_total v + YearLocals.social_security_income v"
  by (simp_all add: year_row_def Let_def)

lemma rows_chain_nth:
  "rows_chain config bal rows \<Longrightarrow> i < length rows \<Longrightarrow>
   rows ! i =
     year_row
       (year_locals config (age (rows ! i))
          (if i = 0 then fst bal else balance_401k (rows ! (i - 1)))
          (if i = 0 then snd bal else balance_brokerage (rows ! (i - 1))))
       None"
proof (induction rows arbitrary: bal i)
  case Nil
  then show ?case by simp
next
  case (Cons row rows)
  show ?case
  proof (cases i)
    case 0
    with Cons.prems(1) show ?thesis by simp
  next
    case (Suc j)
    from Cons.prems have chain: "rows_chain config (balance_401k row, balance_brokerage row) rows"
      and j: "j < length rows" by (simp_all add: Suc)
    from Cons.IH [OF chain j] show ?thesis
      by (cases j) (simp_all add: Suc)
  qed
qed

lemma run_projection_length:
  assumes "run_projection config = Inr rows"
  shows "int (length rows) = max 0 (end_age config - current_age config + 1)"
proof -
  from run_projection_Inr [OF assms]
  have "map age rows = [current_age config..end_age config]" by simp
  then have "length rows = length [current_age config..end_age config]"
    by (metis length_map)
  then show ?thesis by simp
qed

lemma draw_split:
  fixes wt p :: real
  shows "wt - min wt p + min wt p = wt"
    and "min wt p + (wt - min wt p) = wt"
    and "0 \<le> wt - min wt p"
    and "0 \<le> min wt p \<longleftrightarrow> 0 \<le> wt \<and> 0 \<le> p"
  by (auto simp: min_def)

lemma rows_chain_year_index:
  "rows_chain config bal rows \<Longrightarrow>
   \<forall>r \<in> set rows. year_index r = age r - current_age config"
proof (induction rows arbitrary: bal)
  case Nil
  show ?case by simp
next
  case (Cons row rows)
  from Cons.prems
  have row: "row = year_row (year_locals config (age row) (fst bal) (snd bal)) None"
    and chain: "rows_chain config (balance_401k row, balance_brokerage row) rows"
    by simp_all
  have "year_index row = age row - current_age config"
    by (subst row) simp
  with Cons.IH [OF chain] show ?case by simp
qed

text \<open>
  When no age of the range reaches the retirement age, the projection returns one row
  per age, in order, with \<open>year_index = age - current_age\<close>.
\<close>

lemma run_projection_accumulation_only:
  assumes "end_age config < retire_age config"
  shows "\<exists>rows. run_projection config = Inr rows \<and>
           int (length rows) = max 0 (end_age config - current_age config + 1) \<and>
           map age rows = [current_age config..end_age config] \<and>
           (\<forall>r \<in> set rows. year_index r = age r - current_age config)"
proof -
  from run_projection_returns [OF assms]
  obtain rows where run: "run_projection config = Inr rows"
    and ages: "map age rows = [current_age config..end_age config]"
    and chain: "rows_chain config
      (current_401k_balance config, current_brokerage_balance config) rows"
    by blast
  from run_projection_length [OF run] ages rows_chain_year_index [OF chain] run
  show ?thesis by simp
qed

text \<open>
  Claim C1 says that \<open>run_projection\<close> returns for every well-formed configuration.
  The code does not: on the scenario of the specification (ages 64 to 66, retirement
  at 65) the first retirement year constructs the \<open>TaxInput\<close> with a keyword the
  class does not declare, and the projection raises TypeError. By
  \<open>run_projection_raises\<close> the same holds for every configuration with
  \<open>current_age \<le> end_age\<close> and \<open>retire_age \<le> end_age\<close>.
\<close>

theorem run_projection_raises_TypeError:
  "run_projection
     \<lparr>current_age = 64, retire_age = 65, end_age = 66,
      current_401k_balance = 100000, current_brokerage_balance = 0,
      annual_401k_contribution = 0, annual_brokerage_contribution = 0,
      real_return_401k = 0, real_return_brokerage = 0.05, swr = 0.04,
      filing_status = ''single'', state_tax_rate = 0,
      withdrawal_order = ''tax_deferred_first''\<rparr> = Inl TypeError"
  by (rule run_projection_raises) simp_all

text \<open>
  Claim C2 says that \<open>run_projection\<close> returns \<open>end_age - current_age + 1\<close> records
  whenever \<open>current_age \<le> end_age\<close>. On the default inputs of the application (ages 51
  to 100, retirement at 55) it returns no records at all: it raises TypeError at age 55.
  The count and the ages are as claimed only when the range holds no retirement year
  (\<open>run_projection_accumulation_only\<close>).
\<close>

theorem run_projection_no_records:
  "current_age
     \<lparr>current_age = 51, retire_age = 55, end_age = 100,
      current_401k_balance = 300000, current_brokerage_balance = 600000,
      annual_401k_contribution = 22000, annual_brokerage_contribution = 12000,
      real_return_401k = 0.07, real_return_brokerage = 0.07, swr = 0.04,
      filing_status = ''married'', state_tax_rate = 0.05,
      withdrawal_order = ''tax_deferred_first''\<rparr>
   \<le> end_age
     \<lparr>current_age = 51, retire_age = 55, end_age = 100,
      current_401k_balance = 300000, current_brokerage_balance = 600000,
      annual_401k_contribution = 22000, annual_brokerage_contribution = 12000,
      real_return_401k = 0.07, real_return_brokerage = 0.07, swr = 0.04,
      filing_status = ''married'', state_tax_rate = 0.05,
      withdrawal_order = ''tax_deferred_first''\<rparr> \<and>
   run_projection
     \<lparr>current_age = 51, retire_age = 55, end_age = 100,
      current_401k_balance = 300000, current_brokerage_balance = 600000,
      annual_401k_contribution = 22000, annual_brokerage_contribution = 12000,
      real_return_401k = 0.07, real_return_brokerage = 0.07, swr = 0.04,
      filing_status = ''married'', state_tax_rate = 0.05,
      withdrawal_order = ''tax_deferred_first''\<rparr> = Inl TypeError"
  by (simp add: run_projection_raises)

text \<open>
  Claim C3. In a retirement year that starts with non-negative balances, with real
  returns of at least -1 and \<open>swr\<close> at least 0: the total withdrawal is the
  post-growth total times \<open>swr\<close>; with the brokerage account first, the brokerage
  withdrawal is the minimum of the total and the brokerage post-growth balance; with
  any other order, the 401k withdrawal is the minimum of the total and the 401k
  post-growth balance; the two withdrawals add up to the total and neither is
  negative.
\<close>

theorem withdrawal_order_law:
  assumes "retire_age config \<le> a"
    and "0 \<le> b1" "0 \<le> b2"
    and "- 1 \<le> real_return_401k config" "- 1 \<le> real_return_brokerage config"
    and "0 \<le> swr config"
  shows "let v = year_locals config a b1 b2 in
           post_growth_401k v = b1 * (1 + real_return_401k config) \<and>
           post_growth_brokerage v = b2 * (1 + real_return_brokerage config) \<and>
           YearLocals.withdrawal_total v
             = (post_growth_401k v + post_growth_brokerage v) * swr config \<and>
           (withdrawal_order config = ''brokerage_first'' \<longrightarrow>
              YearLocals.withdrawal_brokerage v
                = min (YearLocals.withdrawal_total v) (post_growth_brokerage v)) \<and>
           (withdrawal_order config \<noteq> ''brokerage_first'' \<longrightarrow>
              YearLocals.withdrawal_401k v
                = min (YearLocals.withdrawal_total v) (post_growth_401k v)) \<and>
           YearLocals.withdrawal_401k v + YearLocals.withdrawal_brokerage v
             = YearLocals.withdrawal_total v \<and>
           0 \<le> YearLocals.withdrawal_401k v \<and> 0 \<le> YearLocals.withdrawal_brokerage v"
proof -
  define pg1 where "pg1 = b1 * (1 + real_return_401k config)"
  define pg2 where "pg2 = b2 * (1 + real_return_brokerage config)"
  define wt where "wt = (pg1 + pg2) * swr config"
  have p1: "0 \<le> pg1"
    unfolding pg1_def using assms(2,4) by (intro mult_nonneg_nonneg) simp_all
  have p2: "0 \<le> pg2"
    unfolding pg2_def using assms(3,5) by (intro mult_nonneg_nonneg) simp_all
  have w: "0 \<le> wt"
    unfolding wt_def using p1 p2 assms(6) by (intro mult_nonneg_nonneg) simp_all
  have "0 \<le> min wt pg1" "0 \<le> min wt pg2" using p1 p2 w by simp_all
  then show ?thesis
    by (simp add: year_locals_retirement [OF assms(1)] Let_def draw_split
        pg1_def [symmetric] pg2_def [symmetric] wt_def [symmetric])
qed

text \<open>Age 61, retirement at 61, balances 100000 and 1000, brokerage first.\<close>

theorem withdrawal_order_law_witness:
  "retire_age
     \<lparr>current_age = 60, retire_age = 61, end_age = 90,
      current_401k_balance = 100000, current_brokerage_balance = 1000,
      annual_401k_contribution = 0, annual_brokerage_contribution = 0,
      real_return_401k = 0, real_return_brokerage = 0, swr = 0.04,
      filing_status = ''single'', state_tax_rate = 0,
      withdrawal_order = ''brokerage_first''\<rparr> \<le> 61 \<and>
   (0::real) \<le> 100000 \<and> (0::real) \<le> 1000 \<and>
   (let v = year_locals
     \<lparr>current_age = 60, retire_age = 61, end_age = 90,
      current_401k_balance = 100000, current_brokerage_balance = 1000,
      annual_401k_contribution = 0, annual_brokerage_contribution = 0,
      real_return_401k = 0, real_return_brokerage = 0, swr = 0.04,
      filing_status = ''single'', state_tax_rate = 0,
      withdrawal_order = ''brokerage_first''\<rparr> 61 100000 1000 in
    YearLocals.withdrawal_total v = 4040 \<and>
    YearLocals.withdrawal_brokerage v = 1000 \<and>
    YearLocals.withdrawal_401k v = 3040 \<and>
    0 \<le> YearLocals.withdrawal_401k v \<and> 0 \<le> YearLocals.withdrawal_brokerage v)"
  using withdrawal_order_law
    [of "\<lparr>current_age = 60, retire_age = 61, end_age = 90,
      current_401k_balance = 100000, current_brokerage_balance = 1000,
      annual_401k_contribution = 0, annual_brokerage_contribution = 0,
      real_return_401k = 0, real_return_brokerage = 0, swr = 0.04,
      filing_status = ''single'', state_tax_rate = 0,
      withdrawal_order = ''brokerage_first''\<rparr>" 61 100000 1000]
  by (simp add: Let_def year_locals_retirement)

lemma two_rows:
  assumes "map age rows = [x, y]"
  shows "length rows = 2" and "age (rows ! 0) = x" and "age (rows ! 1) = y"
proof -
  from assms obtain r0 r1 where "rows = [r0, r1]" "age r0 = x" "age r1 = y"
    by (auto simp: map_eq_Cons_conv)
  then show "length rows = 2" and "age (rows ! 0) = x" and "age (rows ! 1) = y"
    by simp_all
qed

text \<open>The rounding on some numbers, a tie among them.\<close>

lemma f64_examples:
  "f64 0.1 = 3602879701896397 / 2 ^ 55"
  "f64 1 = 1"
  "f64 (- 2.5) = - 2.5"
  "f64 (2 ^ 53 + 1) = 2 ^ 53"
  "f64 (2 ^ 53 + 3) = 2 ^ 53 + 4"
  "f64 (1 / 3) = 6004799503160661 / 2 ^ 54"
  by (simp_all add: f64_def f64_exponent_def pow2_def round_half_even_def Let_def)




text \<open>
  Claim C7. In a year before the retirement age the iteration does not raise; its row
  has zero withdrawals, Social Security income, tax and net income, and both balances
  are the previous balance plus the annual contribution, times one plus the real
  return. In a returned projection the previous balance of row \<open>i\<close> is the balance of
  row \<open>i - 1\<close>, or the starting balance for the first row.
\<close>

theorem non_retirement_year_record:
  "(a < retire_age config \<longrightarrow>
      (\<exists>row. year_body config a (b1, b2) =
                Inr (row,
                     ((b1 + annual_401k_contribution config) * (1 + real_return_401k config),
                      (b2 + annual_brokerage_contribution config)
                        * (1 + real_return_brokerage config))) \<and>
             age row = a \<and> year_index row = a - current_age config \<and>
             \<not> is_retirement_year row \<and>
             withdrawal_total row = 0 \<and> withdrawal_401k row = 0 \<and>
             withdrawal_brokerage row = 0 \<and> social_security_income row = 0 \<and>
             tax_total row = 0 \<and> net_income_after_tax row = 0 \<and>
             balance_401k row =
               (b1 + annual_401k_contribution config) * (1 + real_return_401k config) \<and>
             balance_brokerage row =
               (b2 + annual_brokerage_contribution config)
                 * (1 + real_return_brokerage config))) \<and>
   (run_projection config = Inr rows \<and> i < length rows \<and>
    age (rows ! i) < retire_age config \<longrightarrow>
      withdrawal_total (rows ! i) = 0 \<and> withdrawal_401k (rows ! i) = 0 \<and>
      withdrawal_brokerage (rows ! i) = 0 \<and> social_security_income (rows ! i) = 0 \<and>
      tax_total (rows ! i) = 0 \<and> net_income_after_tax (rows ! i) = 0 \<and>
      balance_401k (rows ! i) =
        ((if i = 0 then current_401k_balance config else balance_401k (rows ! (i - 1)))
           + annual_401k_contribution config) * (1 + real_return_401k config) \<and>
      balance_brokerage (rows ! i) =
        ((if i = 0 then current_brokerage_balance config
          else balance_brokerage (rows ! (i - 1)))
           + annual_brokerage_contribution config) * (1 + real_return_brokerage config))"
proof (rule conjI; rule impI)
  assume "a < retire_age config"
  then show "\<exists>row. year_body config a (b1, b2) =
                Inr (row,
                     ((b1 + annual_401k_contribution config) * (1 + real_return_401k config),
                      (b2 + annual_brokerage_contribution config)
                        * (1 + real_return_brokerage config))) \<and>
             age row = a \<and> year_index row = a - current_age config \<and>
             \<not> is_retirement_year row \<and>
             withdrawal_total row = 0 \<and> withdrawal_401k row = 0 \<and>
             withdrawal_brokerage row = 0 \<and> social_security_income row = 0 \<and>
             tax_total row = 0 \<and> net_income_after_tax row = 0 \<and>
             balance_401k row =
               (b1 + annual_401k_contribution config) * (1 + real_return_401k config) \<and>
             balance_brokerage row =
               (b2 + annual_brokerage_contribution config)
                 * (1 + real_return_brokerage config)"
    by (simp add: year_body_accumulation year_locals_accumulation)
next
  assume h: "run_projection config = Inr rows \<and> i < length rows \<and>
    age (rows ! i) < retire_age config"
  then have run: "run_projection config = Inr rows" and i: "i < length rows"
    and acc: "age (rows ! i) < retire_age config" by simp_all
  from run_projection_Inr [OF run]
  have chain: "rows_chain config
      (current_401k_balance config, current_brokerage_balance config) rows" by simp
  define p1 where
    "p1 = (if i = 0 then current_401k_balance config else balance_401k (rows ! (i - 1)))"
  define p2 where
    "p2 = (if i = 0 then current_brokerage_balance config
           else balance_brokerage (rows ! (i - 1)))"
  from rows_chain_nth [OF chain i]
  have row: "rows ! i = year_row (year_locals config (age (rows ! i)) p1 p2) None"
    unfolding p1_def p2_def fst_conv snd_conv .
  have "withdrawal_total (rows ! i) = 0 \<and> withdrawal_401k (rows ! i) = 0 \<and>
      withdrawal_brokerage (rows ! i) = 0 \<and> social_security_income (rows ! i) = 0 \<and>
      tax_total (rows ! i) = 0 \<and> net_income_after_tax (rows ! i) = 0 \<and>
      balance_401k (rows ! i) =
        (p1 + annual_401k_contribution config) * (1 + real_return_401k config) \<and>
      balance_brokerage (rows ! i) =
        (p2 + annual_brokerage_contribution config) * (1 + real_return_brokerage config)"
    by (subst (1 2 3 4 5 6 7 8) row) (simp add: year_locals_accumulation [OF acc])
  then show "withdrawal_total (rows ! i) = 0 \<and> withdrawal_401k (rows ! i) = 0 \<and>
      withdrawal_brokerage (rows ! i) = 0 \<and> social_security_income (rows ! i) = 0 \<and>
      tax_total (rows ! i) = 0 \<and> net_income_after_tax (rows ! i) = 0 \<and>
      balance_401k (rows ! i) =
        ((if i = 0 then current_401k_balance config else balance_401k (rows ! (i - 1)))
           + annual_401k_contribution config) * (1 + real_return_401k config) \<and>
      balance_brokerage (rows ! i) =
        ((if i = 0 then current_brokerage_balance config
          else balance_brokerage (rows ! (i - 1)))
           + annual_brokerage_contribution config) * (1 + real_return_brokerage config)"
    by (simp only: p1_def p2_def)
qed

text \<open>Ages 30 to 31 with retirement at 65.\<close>

theorem non_retirement_year_record_witness:
  "30 < retire_age \<lparr>current_age = 30, retire_age = 65, end_age = 31,
      current_401k_balance = 1000, current_brokerage_balance = 2000,
      annual_401k_contribution = 100, annual_brokerage_contribution = 200,
      real_return_401k = 0.1, real_return_brokerage = 0.1, swr = 0.04,
      filing_status = ''single'', state_tax_rate = 0.05,
      withdrawal_order = ''brokerage_first''\<rparr> \<and>
   (\<exists>row. year_body \<lparr>current_age = 30, retire_age = 65, end_age = 31,
      current_401k_balance = 1000, current_brokerage_balance = 2000,
      annual_401k_contribution = 100, annual_brokerage_contribution = 200,
      real_return_401k = 0.1, real_return_brokerage = 0.1, swr = 0.04,
      filing_status = ''single'', state_tax_rate = 0.05,
      withdrawal_order = ''brokerage_first''\<rparr> 30 (1000, 2000) = Inr (row, (1210, 2420)) \<and>
      tax_total row = 0 \<and> net_income_after_tax row = 0 \<and>
      balance_401k row = 1210 \<and> balance_brokerage row = 2420) \<and>
   (\<exists>rows. run_projection \<lparr>current_age = 30, retire_age = 65, end_age = 31,
      current_401k_balance = 1000, current_brokerage_balance = 2000,
      annual_401k_contribution = 100, annual_brokerage_contribution = 200,
      real_return_401k = 0.1, real_return_brokerage = 0.1, swr = 0.04,
      filing_status = ''single'', state_tax_rate = 0.05,
      withdrawal_order = ''brokerage_first''\<rparr> = Inr rows \<and> 1 < length rows \<and>
      age (rows ! 1) < retire_age \<lparr>current_age = 30, retire_age = 65, end_age = 31,
      current_401k_balance = 1000, current_brokerage_balance = 2000,
      annual_401k_contribution = 100, annual_brokerage_contribution = 200,
      real_return_401k = 0.1, real_return_brokerage = 0.1, swr = 0.04,
      filing_status = ''single'', state_tax_rate = 0.05,
      withdrawal_order = ''brokerage_first''\<rparr> \<and>
      withdrawal_total (rows ! 1) = 0 \<and> tax_total (rows ! 1) = 0 \<and>
      balance_401k (rows ! 1) = (balance_401k (rows ! 0) + 100) * 1.1)"
proof -
  obtain rows where run: "run_projection \<lparr>current_age = 30, retire_age = 65, end_age = 31,
      current_401k_balance = 1000, current_brokerage_balance = 2000,
      annual_401k_contribution = 100, annual_brokerage_contribution = 200,
      real_return_401k = 0.1, real_return_brokerage = 0.1, swr = 0.04,
      filing_status = ''single'', state_tax_rate = 0.05,
      withdrawal_order = ''brokerage_first''\<rparr> = Inr rows"
    and ages: "map age rows = [current_age \<lparr>current_age = 30, retire_age = 65, end_age = 31,
      current_401k_balance = 1000, current_brokerage_balance = 2000,
      annual_401k_contribution = 100, annual_brokerage_contribution = 200,
      real_return_401k = 0.1, real_return_brokerage = 0.1, swr = 0.04,
      filing_status = ''single'', state_tax_rate = 0.05,
      withdrawal_order = ''brokerage_first''\<rparr>..end_age \<lparr>current_age = 30, retire_age = 65, end_age = 31,
      current_401k_balance = 1000, current_brokerage_balance = 2000,
      annual_401k_contribution = 100, annual_brokerage_contribution = 200,
      real_return_401k = 0.1, real_return_brokerage = 0.1, swr = 0.04,
      filing_status = ''single'', state_tax_rate = 0.05,
      withdrawal_order = ''brokerage_first''\<rparr>]"
    using run_projection_returns [of "\<lparr>current_age = 30, retire_age = 65, end_age = 31,
      current_401k_balance = 1000, current_brokerage_balance = 2000,
      annual_401k_contribution = 100, annual_brokerage_contribution = 200,
      real_return_401k = 0.1, real_return_brokerage = 0.1, swr = 0.04,
      filing_status = ''single'', state_tax_rate = 0.05,
      withdrawal_order = ''brokerage_first''\<rparr>"] by auto
  from ages have "map age rows = [30, 31]" by (simp add: upto_rec1)
  then have len: "length rows = 2" and a1: "age (rows ! 1) = 31" by (rule two_rows)+
  from non_retirement_year_record [of 30 "\<lparr>current_age = 30, retire_age = 65, end_age = 31,
      current_401k_balance = 1000, current_brokerage_balance = 2000,
      annual_401k_contribution = 100, annual_brokerage_contribution = 200,
      real_return_401k = 0.1, real_return_brokerage = 0.1, swr = 0.04,
      filing_status = ''single'', state_tax_rate = 0.05,
      withdrawal_order = ''brokerage_first''\<rparr>" 1000 2000 rows 1] run len a1
  show ?thesis by (auto simp: Let_def)
qed

text \<open>
  Claim C8. The Social Security income of a year is \<open>41000 * 1.025 ^ (age - 62)\<close> when
  the year is a retirement year and the age is at least 62, and 0 otherwise, both as
  computed in the iteration and in the row of an iteration that returns. It depends on
  the configuration through \<open>retire_age\<close> only (the configuration of the code has no
  field for a Social Security start age).
\<close>

theorem social_security_income_formula:
  "YearLocals.social_security_income (year_locals config a b1 b2) =
     (if retire_age config \<le> a \<and> 62 \<le> a then 41000 * 1.025 ^ nat (a - 62) else 0) \<and>
   (year_body config a bal = Inr (row, bal') \<longrightarrow>
      social_security_income row =
        (if retire_age config \<le> a \<and> 62 \<le> a then 41000 * 1.025 ^ nat (a - 62) else 0)) \<and>
   (retire_age config = retire_age config' \<longrightarrow>
      YearLocals.social_security_income (year_locals config a b1 b2) =
      YearLocals.social_security_income (year_locals config' a b1' b2'))"
proof -
  have ss: "YearLocals.social_security_income (year_locals c a x y) =
      (if retire_age c \<le> a \<and> 62 \<le> a then 41000 * 1.025 ^ nat (a - 62) else 0)"
    for c x y
  proof (cases "retire_age c \<le> a")
    case True
    then show ?thesis by (simp add: year_locals_retirement Let_def)
  next
    case False
    then show ?thesis by (simp add: year_locals_accumulation)
  qed
  have "social_security_income row =
        (if retire_age config \<le> a \<and> 62 \<le> a then 41000 * 1.025 ^ nat (a - 62) else 0)"
    if "year_body config a bal = Inr (row, bal')"
  proof (cases "retire_age config \<le> a")
    case True
    with that show ?thesis by (simp add: year_body_retirement)
  next
    case False
    with that show ?thesis
      by (auto simp: year_body_accumulation year_locals_accumulation)
  qed
  then show ?thesis by (simp add: ss)
qed

text \<open>Age 65 with retirement at 65 gives 44152.515625; age 30 gives 0.\<close>

theorem social_security_income_formula_witness:
  "YearLocals.social_security_income (year_locals \<lparr>current_age = 30, retire_age = 65, end_age = 31,
      current_401k_balance = 1000, current_brokerage_balance = 2000,
      annual_401k_contribution = 100, annual_brokerage_contribution = 200,
      real_return_401k = 0.1, real_return_brokerage = 0.1, swr = 0.04,
      filing_status = ''single'', state_tax_rate = 0.05,
      withdrawal_order = ''brokerage_first''\<rparr> 65 5000 3000) = 44152.515625 \<and>
   (\<exists>row bal'. year_body \<lparr>current_age = 30, retire_age = 65, end_age = 31,
      current_401k_balance = 1000, current_brokerage_balance = 2000,
      annual_401k_contribution = 100, annual_brokerage_contribution = 200,
      real_return_401k = 0.1, real_return_brokerage = 0.1, swr = 0.04,
      filing_status = ''single'', state_tax_rate = 0.05,
      withdrawal_order = ''brokerage_first''\<rparr> 30 (1000, 2000) = Inr (row, bal') \<and>
      social_security_income row = 0) \<and>
   retire_age \<lparr>current_age = 30, retire_age = 65, end_age = 31,
      current_401k_balance = 1000, current_brokerage_balance = 2000,
      annual_401k_contribution = 100, annual_brokerage_contribution = 200,
      real_return_401k = 0.1, real_return_brokerage = 0.1, swr = 0.04,
      filing_status = ''single'', state_tax_rate = 0.05,
      withdrawal_order = ''brokerage_first''\<rparr> = retire_age \<lparr>current_age = 30, retire_age = 65, end_age = 31,
      current_401k_balance = 1000, current_brokerage_balance = 2000,
      annual_401k_contribution = 100, annual_brokerage_contribution = 200,
      real_return_401k = 0.1, real_return_brokerage = 0.1, swr = 0.05,
      filing_status = ''single'', state_tax_rate = 0.05,
      withdrawal_order = ''brokerage_first''\<rparr> \<and>
   YearLocals.social_security_income (year_locals \<lparr>current_age = 30, retire_age = 65, end_age = 31,
      current_401k_balance = 1000, current_brokerage_balance = 2000,
      annual_401k_contribution = 100, annual_brokerage_contribution = 200,
      real_return_401k = 0.1, real_return_brokerage = 0.1, swr = 0.05,
      filing_status = ''single'', state_tax_rate = 0.05,
      withdrawal_order = ''brokerage_first''\<rparr> 65 1 2) = 44152.515625"
proof -
  obtain row bal' where body: "year_body \<lparr>current_age = 30, retire_age = 65, end_age = 31,
      current_401k_balance = 1000, current_brokerage_balance = 2000,
      annual_401k_contribution = 100, annual_brokerage_contribution = 200,
      real_return_401k = 0.1, real_return_brokerage = 0.1, swr = 0.04,
      filing_status = ''single'', state_tax_rate = 0.05,
      withdrawal_order = ''brokerage_first''\<rparr> 30 (1000, 2000) = Inr (row, bal')"
    by (simp add: year_body_accumulation)
  from social_security_income_formula [of "\<lparr>current_age = 30, retire_age = 65, end_age = 31,
      current_401k_balance = 1000, current_brokerage_balance = 2000,
      annual_401k_contribution = 100, annual_brokerage_contribution = 200,
      real_return_401k = 0.1, real_return_brokerage = 0.1, swr = 0.04,
      filing_status = ''single'', state_tax_rate = 0.05,
      withdrawal_order = ''brokerage_first''\<rparr>" 65 5000 3000 "(1000, 2000)" row bal'
      "\<lparr>current_age = 30, retire_age = 65, end_age = 31,
      current_401k_balance = 1000, current_brokerage_balance = 2000,
      annual_401k_contribution = 100, annual_brokerage_contribution = 200,
      real_return_401k = 0.1, real_return_brokerage = 0.1, swr = 0.05,
      filing_status = ''single'', state_tax_rate = 0.05,
      withdrawal_order = ''brokerage_first''\<rparr>" 1 2]
    social_security_income_formula [of "\<lparr>current_age = 30, retire_age = 65, end_age = 31,
      current_401k_balance = 1000, current_brokerage_balance = 2000,
      annual_401k_contribution = 100, annual_brokerage_contribution = 200,
      real_return_401k = 0.1, real_return_brokerage = 0.1, swr = 0.04,
      filing_status = ''single'', state_tax_rate = 0.05,
      withdrawal_order = ''brokerage_first''\<rparr>" 30 1000 2000 "(1000, 2000)" row bal'
      "\<lparr>current_age = 30, retire_age = 65, end_age = 31,
      current_401k_balance = 1000, current_brokerage_balance = 2000,
      annual_401k_contribution = 100, annual_brokerage_contribution = 200,
      real_return_401k = 0.1, real_return_brokerage = 0.1, swr = 0.04,
      filing_status = ''single'', state_tax_rate = 0.05,
      withdrawal_order = ''brokerage_first''\<rparr>" 1 2] body
  show ?thesis by (simp add: power3_eq_cube)
qed

end
